theory Spec2Isabelle
  imports Main "HOL-Library.Sublist" "HOL-Library.Char_ord" "HOL-Library.List_Lexorder"
    "HOL-Library.Multiset"
begin

section \<open>Data model of LatestNews.tsx\<close>

text \<open>
  JavaScript strings are modelled as \<^typ>\<open>string\<close>, a list of code units. The texts the
  properties are about (keywords, ISO timestamps, JSON punctuation) are ASCII. The field
  \<open>id\<close> of a \<open>NewsItem\<close> is called \<open>id_field\<close> here.
\<close>

record NewsItem =
  id_field :: string
  title :: string
  url :: string
  source :: string
  publishedAtISO :: string
  snippet :: string

definition CACHE_KEY :: string where
  "CACHE_KEY = ''latestNews_cache_v3''"

definition CACHE_TTL_MS :: int where
  "CACHE_TTL_MS = 60 * 60 * 1000"

definition POWER_TERMS :: "string list" where
  "POWER_TERMS =
     [''power'', ''electricity'', ''grid'', ''demand'', ''supply'', ''peak'', ''renewable'',
      ''solar'', ''wind'', ''coal'', ''plf'', ''transmission'', ''discom'', ''energy'']"

section \<open>String built-ins\<close>

text \<open>
  \<open>String.prototype.toLowerCase\<close> on the ASCII range: the letters A to Z move to a to z,
  every other code unit stays.
\<close>

definition toLowerCase_char :: "char \<Rightarrow> char" where
  "toLowerCase_char c =
     (let n = (of_char c :: nat) in if 65 \<le> n \<and> n \<le> 90 then char_of (n + 32) else c)"

definition toLowerCase :: "string \<Rightarrow> string" where
  "toLowerCase s = map toLowerCase_char s"

text \<open>
  \<open>String.prototype.includes\<close>: scan the haystack from the left and test, at each position,
  whether the needle starts there.
\<close>

fun includes_str :: "string \<Rightarrow> string \<Rightarrow> bool" where
  "includes_str [] t = (t = [])"
| "includes_str (c # cs) t = (prefix t (c # cs) \<or> includes_str cs t)"

text \<open>\<open>clamp(text = "", n = 180)\<close>; the ellipsis U+2026 is written as its three UTF-8 bytes.\<close>

definition ellipsis :: string where
  "ellipsis = [char_of (226 :: nat), char_of (128 :: nat), char_of (166 :: nat)]"

definition clamp :: "string \<Rightarrow> nat \<Rightarrow> string" where
  "clamp text n = (if length text \<le> n then text else take n text @ ellipsis)"

section \<open>Relevance filter\<close>

definition hay :: "NewsItem \<Rightarrow> string" where
  "hay item = toLowerCase (title item @ '' '' @ snippet item @ '' '' @ source item)"

definition isRelevant :: "NewsItem \<Rightarrow> bool" where
  "isRelevant item =
     ((includes_str (hay item) ''india'' \<or> includes_str (hay item) ''indian'') \<and>
      list_ex (\<lambda>t. includes_str (hay item) t) POWER_TERMS)"

section \<open>JavaScript values and the built-ins the component calls\<close>

text \<open>
  The values that \<open>JSON.parse\<close> can return and that flow, unchecked, from the cache into the
  component state. Numbers are integers (epoch milliseconds); an object is the list of its
  own properties, each key once.
\<close>

datatype jsval =
    JUndefined
  | JNull
  | JBool bool
  | JNum int
  | JStr string
  | JArr "jsval list"
  | JObj "(string \<times> jsval) list"

datatype js_error = SyntaxError | TypeError | RangeError | Error string | NetworkError

text \<open>
  One \<open><item>\<close> element of the feed document, as the five \<open>querySelector(..)?.textContent\<close>
  reads see it: \<open>None\<close> when the item has no such child element.
\<close>

record rss_item =
  el_title :: "string option"
  el_link :: "string option"
  el_pubDate :: "string option"
  el_source :: "string option"
  el_description :: "string option"

text \<open>
  The platform functions are parameters of the model, so that every theorem holds for
  whatever the browser computes:
  \<^item> \<open>JSON_parse\<close>: \<open>None\<close> when \<open>JSON.parse\<close> throws a SyntaxError;
  \<^item> \<open>JSON_stringify\<close>;
  \<^item> \<open>ToNumber_other\<close>: the numeric conversion of a string, an array or an object
    (\<open>None\<close> is NaN);
  \<^item> \<open>Date_parse\<close>: the time value of \<open>new Date(s)\<close> in milliseconds, \<open>None\<close> for an
    Invalid Date;
  \<^item> \<open>toISOString\<close> of a valid time value;
  \<^item> \<open>DOM_items\<close>: \<open>new DOMParser().parseFromString(text, "text/xml")\<close> followed by
    \<open>querySelectorAll("item")\<close>, which never throws.
\<close>

record builtins =
  JSON_parse :: "string \<Rightarrow> jsval option"
  JSON_stringify :: "jsval \<Rightarrow> string"
  ToNumber_other :: "jsval \<Rightarrow> int option"
  Date_parse :: "string \<Rightarrow> int option"
  toISOString :: "int \<Rightarrow> string"
  DOM_items :: "string \<Rightarrow> rss_item list"

text \<open>Truthiness, as \<open>if (cached)\<close> tests it.\<close>

fun truthy :: "jsval \<Rightarrow> bool" where
  "truthy JUndefined = False"
| "truthy JNull = False"
| "truthy (JBool b) = b"
| "truthy (JNum n) = (n \<noteq> 0)"
| "truthy (JStr s) = (s \<noteq> [])"
| "truthy (JArr xs) = True"
| "truthy (JObj kvs) = True"

text \<open>
  \<open>obj.ts\<close> and \<open>obj.items\<close>: reading a property of \<open>null\<close> or \<open>undefined\<close> throws a
  TypeError; an object gives the property or \<open>undefined\<close>; a boolean, a number, a string and
  an array have neither property.
\<close>

fun get_prop :: "jsval \<Rightarrow> string \<Rightarrow> js_error + jsval" where
  "get_prop JUndefined k = Inl TypeError"
| "get_prop JNull k = Inl TypeError"
| "get_prop (JObj kvs) k = Inr (case map_of kvs k of None \<Rightarrow> JUndefined | Some v \<Rightarrow> v)"
| "get_prop v k = Inr JUndefined"

fun ToNumber :: "builtins \<Rightarrow> jsval \<Rightarrow> int option" where
  "ToNumber env JUndefined = None"
| "ToNumber env JNull = Some 0"
| "ToNumber env (JBool b) = Some (if b then 1 else 0)"
| "ToNumber env (JNum n) = Some n"
| "ToNumber env v = ToNumber_other env v"

text \<open>The decimal text of an array index, as the template literal prints it.\<close>

function show_nat :: "nat \<Rightarrow> string" where
  "show_nat n =
     (if n < 10 then [char_of (48 + n)] else show_nat (n div 10) @ [char_of (48 + n mod 10)])"
  by pat_completeness auto
termination
  by (relation "measure (\<lambda>n. n)") auto

declare show_nat.simps [simp del]

section \<open>Cache store\<close>

type_synonym localStorage = "string \<rightharpoonup> string"

definition NewsItem_js :: "NewsItem \<Rightarrow> jsval" where
  "NewsItem_js n =
     JObj [(''id'', JStr (id_field n)), (''title'', JStr (title n)), (''url'', JStr (url n)),
           (''source'', JStr (source n)), (''publishedAtISO'', JStr (publishedAtISO n)),
           (''snippet'', JStr (snippet n))]"

definition cache_entry :: "int \<Rightarrow> NewsItem list \<Rightarrow> jsval" where
  "cache_entry now its = JObj [(''ts'', JNum now), (''items'', JArr (map NewsItem_js its))]"

text \<open>
  The body of the \<open>try\<close> block of \<open>loadCache\<close>; \<open>now\<close> is what \<open>Date.now()\<close> returns.
  A NaN difference compares false with the time to live.
\<close>

definition loadCache_try :: "builtins \<Rightarrow> int \<Rightarrow> localStorage \<Rightarrow> js_error + jsval" where
  "loadCache_try env now store =
     (case store CACHE_KEY of
        None \<Rightarrow> Inr JNull
      | Some raw \<Rightarrow>
          if raw = [] then Inr JNull
          else (case JSON_parse env raw of
                  None \<Rightarrow> Inl SyntaxError
                | Some obj \<Rightarrow>
                    (case get_prop obj ''ts'' of
                       Inl e \<Rightarrow> Inl e
                     | Inr ts \<Rightarrow>
                         if (case ToNumber env ts of
                               None \<Rightarrow> False
                             | Some t \<Rightarrow> now - t > CACHE_TTL_MS)
                         then Inr JNull
                         else get_prop obj ''items'')))"

definition loadCache :: "builtins \<Rightarrow> int \<Rightarrow> localStorage \<Rightarrow> jsval" where
  "loadCache env now store =
     (case loadCache_try env now store of Inl e \<Rightarrow> JNull | Inr v \<Rightarrow> v)"

text \<open>\<open>saveCache\<close>; \<open>localStorage.setItem\<close> is taken to succeed.\<close>

definition saveCache :: "builtins \<Rightarrow> int \<Rightarrow> NewsItem list \<Rightarrow> localStorage \<Rightarrow> localStorage" where
  "saveCache env now its store = store(CACHE_KEY \<mapsto> JSON_stringify env (cache_entry now its))"

section \<open>Feed fetcher and parser\<close>

text \<open>\<open>x || d\<close> on an optional string: the default replaces a missing and an empty text.\<close>

definition or_default :: "string option \<Rightarrow> string \<Rightarrow> string" where
  "or_default x d = (case x of None \<Rightarrow> d | Some s \<Rightarrow> if s = [] then d else s)"

text \<open>
  \<open>replace(/<[^>]+>/g, "")\<close>: a match starts at a \<open><\<close>, takes at least one code unit
  other than \<open>>\<close> and ends at the next \<open>>\<close>.
\<close>

definition tag_rest :: "string \<Rightarrow> string option" where
  "tag_rest cs =
     (let inner = takeWhile (\<lambda>c. c \<noteq> CHR ''>'') cs; rest = dropWhile (\<lambda>c. c \<noteq> CHR ''>'') cs
      in if inner \<noteq> [] \<and> rest \<noteq> [] then Some (tl rest) else None)"

function strip_tags :: "string \<Rightarrow> string" where
  "strip_tags [] = []"
| "strip_tags (c # cs) =
     (if c = CHR ''<'' then
        (case tag_rest cs of Some rest \<Rightarrow> strip_tags rest | None \<Rightarrow> c # strip_tags cs)
      else c # strip_tags cs)"
  by pat_completeness auto
termination
proof (relation "measure length")
  fix c :: char and cs rest :: string
  assume "tag_rest cs = Some rest"
  then have "rest = tl (dropWhile (\<lambda>c. c \<noteq> CHR ''>'') cs)"
    by (simp add: tag_rest_def Let_def split: if_splits)
  moreover have "length (dropWhile (\<lambda>c. c \<noteq> CHR ''>'') cs) \<le> length cs"
    by (rule length_dropWhile_le)
  ultimately show "(rest, c # cs) \<in> measure length" by simp
qed simp_all

text \<open>
  The callback of \<open>items.map\<close>: \<open>Inr None\<close> is the \<open>null\<close> it returns for an item to drop,
  \<open>Inl RangeError\<close> is what \<open>toISOString\<close> throws on an Invalid Date.
\<close>

definition parse_item :: "builtins \<Rightarrow> nat \<Rightarrow> rss_item \<Rightarrow> js_error + NewsItem option" where
  "parse_item env i item =
     (let title' = or_default (el_title item) [];
          link = or_default (el_link item) [];
          pubDate = or_default (el_pubDate item) [];
          source' = or_default (el_source item) ''Google News'';
          desc = or_default (map_option strip_tags (el_description item)) []
      in case (if pubDate \<noteq> []
               then (case Date_parse env pubDate of
                       None \<Rightarrow> Inl RangeError
                     | Some t \<Rightarrow> Inr (toISOString env t))
               else Inr [])
         of Inl e \<Rightarrow> Inl e
          | Inr isoText \<Rightarrow>
              if title' = [] \<or> link = [] \<or> isoText = [] then Inr None
              else Inr (Some \<lparr>id_field = isoText @ ''_'' @ show_nat i, title = title', url = link,
                              source = source', publishedAtISO = isoText,
                              snippet = clamp desc 180\<rparr>))"

text \<open>\<open>Array.prototype.map\<close> with the index; the first exception ends the loop.\<close>

fun map_items :: "builtins \<Rightarrow> nat \<Rightarrow> rss_item list \<Rightarrow> js_error + NewsItem option list" where
  "map_items env i [] = Inr []"
| "map_items env i (x # xs) =
     (case parse_item env i x of
        Inl e \<Rightarrow> Inl e
      | Inr r \<Rightarrow> (case map_items env (Suc i) xs of Inl e \<Rightarrow> Inl e | Inr rs \<Rightarrow> Inr (r # rs)))"

text \<open>\<open>filter(Boolean)\<close> on the mapped array drops the \<open>null\<close>s.\<close>

fun filter_Boolean :: "'a option list \<Rightarrow> 'a list" where
  "filter_Boolean [] = []"
| "filter_Boolean (None # rs) = filter_Boolean rs"
| "filter_Boolean (Some r # rs) = r # filter_Boolean rs"

text \<open>
  What \<open>await fetch(proxy)\<close> and \<open>await res.text()\<close> give: a rejected promise, or a response
  with its \<open>ok\<close> flag and body.
\<close>

datatype fetch_result = Rejected | Response bool string

definition fetchGoogleNewsRSS :: "builtins \<Rightarrow> fetch_result \<Rightarrow> js_error + NewsItem list" where
  "fetchGoogleNewsRSS env res =
     (case res of
        Rejected \<Rightarrow> Inl NetworkError
      | Response ok xmlText \<Rightarrow>
          if \<not> ok then Inl (Error ''RSS fetch failed'')
          else (case map_items env 0 (DOM_items env xmlText) of
                  Inl e \<Rightarrow> Inl e
                | Inr rs \<Rightarrow> Inr (filter_Boolean rs)))"

section \<open>Pipeline orchestrator\<close>

text \<open>
  The component state set by \<open>setItems\<close>, \<open>setLoading\<close> and \<open>setError\<close>. \<open>items\<close> holds a
  JavaScript value, since what \<open>loadCache\<close> returns is stored as it is. The world outside
  the component is the local storage and the number of requests sent to the relay.
\<close>

record ui_state =
  items :: jsval
  loading :: bool
  error :: "string option"

record world =
  storage :: localStorage
  fetch_calls :: nat

text \<open>The fixed message of the \<open>catch\<close> block; its dash U+2013 is three UTF-8 bytes.\<close>

definition load_error_message :: string where
  "load_error_message =
     ''Unable to load news '' @ [char_of (226 :: nat), char_of (128 :: nat), char_of (147 :: nat)] @
     '' please try again later''"

text \<open>The two calls that open \<open>load\<close>: \<open>setLoading(true); setError(null)\<close>.\<close>

definition load_entry :: "ui_state \<Rightarrow> ui_state" where
  "load_entry st = st\<lparr>loading := True, error := None\<rparr>"

text \<open>
  \<open>load(force)\<close>. \<open>t_read\<close> and \<open>t_write\<close> are the values of \<open>Date.now()\<close> inside \<open>loadCache\<close>
  and \<open>saveCache\<close>; \<open>res\<close> is what the relay answers if it is asked. Every path ends with
  \<open>setLoading(false)\<close>.
\<close>

definition load ::
  "builtins \<Rightarrow> bool \<Rightarrow> int \<Rightarrow> int \<Rightarrow> fetch_result \<Rightarrow> ui_state \<Rightarrow> world \<Rightarrow> ui_state \<times> world" where
  "load env force t_read t_write res st w =
     (let st1 = load_entry st in
      if \<not> force \<and> truthy (loadCache env t_read (storage w))
      then (st1\<lparr>items := loadCache env t_read (storage w), loading := False\<rparr>, w)
      else
        (let w1 = w\<lparr>fetch_calls := Suc (fetch_calls w)\<rparr> in
         case fetchGoogleNewsRSS env res of
           Inl e \<Rightarrow> (st1\<lparr>error := Some load_error_message, loading := False\<rparr>, w1)
         | Inr raw \<Rightarrow>
             (let relevant = take 100 (filter isRelevant raw) in
              (st1\<lparr>items := JArr (map NewsItem_js relevant), loading := False\<rparr>,
               w1\<lparr>storage := saveCache env t_write relevant (storage w1)\<rparr>))))"

section \<open>Derived view\<close>

text \<open>\<open>>=\<close> and \<open><=\<close> on time values; a comparison with NaN is false.\<close>

definition num_le :: "int option \<Rightarrow> int option \<Rightarrow> bool" where
  "num_le a b = (case a of None \<Rightarrow> False | Some x \<Rightarrow> (case b of None \<Rightarrow> False | Some y \<Rightarrow> x \<le> y))"

definition in_range :: "builtins \<Rightarrow> string \<Rightarrow> string \<Rightarrow> NewsItem \<Rightarrow> bool" where
  "in_range env from to n =
     (let fromT = Date_parse env (from @ ''T00:00:00Z'');
          toT = Date_parse env (to @ ''T23:59:59Z'');
          t = Date_parse env (publishedAtISO n)
      in num_le fromT t \<and> num_le t toT)"

text \<open>The comparator handed to \<open>sort\<close>; it compares the ISO strings and never returns 0.\<close>

definition compareFn :: "NewsItem \<Rightarrow> NewsItem \<Rightarrow> int" where
  "compareFn a b = (if publishedAtISO a < publishedAtISO b then 1 else - 1)"

text \<open>
  \<open>Array.prototype.sort\<close>. The comparator above is not a consistent one (it answers \<open>- 1\<close>
  for two equal keys in both directions), so ECMAScript leaves the order to the engine.
  The model is the insertion sort of V8, which asks the comparator about the element to
  insert and an element already placed, and puts the new element in front of the first
  placed one for which the answer is negative.
\<close>

fun sort_insert :: "('a \<Rightarrow> 'a \<Rightarrow> int) \<Rightarrow> 'a \<Rightarrow> 'a list \<Rightarrow> 'a list" where
  "sort_insert cmp x [] = [x]"
| "sort_insert cmp x (y # ys) = (if cmp x y < 0 then x # y # ys else y # sort_insert cmp x ys)"

definition Array_sort :: "('a \<Rightarrow> 'a \<Rightarrow> int) \<Rightarrow> 'a list \<Rightarrow> 'a list" where
  "Array_sort cmp xs = foldl (\<lambda>placed x. sort_insert cmp x placed) [] xs"

text \<open>
  The memoised view \<open>filtered\<close>, on the records that \<open>items\<close> holds (the state is typed
  \<open>NewsItem[]\<close>).
\<close>

definition filtered :: "builtins \<Rightarrow> NewsItem list \<Rightarrow> string \<Rightarrow> string \<Rightarrow> NewsItem list" where
  "filtered env its from to = Array_sort compareFn (filter (in_range env from to) its)"

section \<open>The order the specification names\<close>

text \<open>
  Following the words of the specification, "a stable sort on the negated key": an
  insertion sort into descending key order that keeps records with equal keys in the
  order they had before the sort.
\<close>

fun insert_desc :: "NewsItem \<Rightarrow> NewsItem list \<Rightarrow> NewsItem list" where
  "insert_desc x [] = [x]"
| "insert_desc x (y # ys) =
     (if publishedAtISO y \<le> publishedAtISO x then x # y # ys else y # insert_desc x ys)"

definition spec_stable_sort_negated_key :: "NewsItem list \<Rightarrow> NewsItem list" where
  "spec_stable_sort_negated_key xs = foldr insert_desc xs []"

section \<open>Sample inputs\<close>

text \<open>
  One concrete browser for the examples below: its tables list, for the few texts the
  examples use, what \<open>JSON.parse\<close>, \<open>JSON.stringify\<close>, \<open>new Date\<close>, \<open>toISOString\<close> and the
  feed parser return for them.
\<close>

definition sample_item :: NewsItem where
  "sample_item =
     \<lparr>id_field = ''2021-01-01T00:00:00.000Z_0'', title = ''India power demand'',
      url = ''https://example.com/a'', source = ''Google News'',
      publishedAtISO = ''2021-01-01T00:00:00.000Z'', snippet = []\<rparr>"

definition sample_cache_text :: string where
  "sample_cache_text =
     ''{\"ts\":1609459200000,\"items\":[{\"id\":\"2021-01-01T00:00:00.000Z_0\",'' @
     ''\"title\":\"India power demand\",\"url\":\"https://example.com/a\",'' @
     ''\"source\":\"Google News\",\"publishedAtISO\":\"2021-01-01T00:00:00.000Z\",'' @
     ''\"snippet\":\"\"}]}''"

definition sample_feed :: string where
  "sample_feed =
     ''<rss><channel>'' @
     ''<item><title>India power demand</title><link>https://example.com/a</link>'' @
     ''<pubDate>Fri, 01 Jan 2021 00:00:00 GMT</pubDate></item>'' @
     ''<item><title>Cricket</title><link>https://example.com/b</link>'' @
     ''<pubDate>Fri, 01 Jan 2021 00:00:00 GMT</pubDate></item>'' @
     ''<item><title>India grid</title><pubDate>Fri, 01 Jan 2021 00:00:00 GMT</pubDate></item>'' @
     ''</channel></rss>''"

definition sample_feed_bad_date :: string where
  "sample_feed_bad_date =
     ''<rss><channel>'' @
     ''<item><title>India power demand</title><link>https://example.com/a</link>'' @
     ''<pubDate>not a date</pubDate></item>'' @
     ''</channel></rss>''"

definition sample_builtins :: builtins where
  "sample_builtins =
     \<lparr>JSON_parse = (\<lambda>s.
        if s = sample_cache_text then Some (cache_entry 1609459200000 [sample_item])
        else if s = ''{\"items\":[]}'' then Some (JObj [(''items'', JArr [])])
        else None),
      JSON_stringify = (\<lambda>v.
        if v = cache_entry 1609459200000 [sample_item] then sample_cache_text else ''null''),
      ToNumber_other = (\<lambda>v. None),
      Date_parse = map_of
        [(''Fri, 01 Jan 2021 00:00:00 GMT'', 1609459200000),
         (''2021-01-01T00:00:00Z'', 1609459200000),
         (''2021-01-31T23:59:59Z'', 1612137599000),
         (''2020-12-31T23:59:59.999Z'', 1609459199999),
         (''2021-01-01T00:00:00.000Z'', 1609459200000),
         (''2021-01-31T23:59:59.000Z'', 1612137599000),
         (''2021-01-31T23:59:59.001Z'', 1612137599001)],
      toISOString = (\<lambda>t. if t = 1609459200000 then ''2021-01-01T00:00:00.000Z'' else []),
      DOM_items = (\<lambda>s.
        if s = sample_feed then
          [\<lparr>el_title = Some ''India power demand'', el_link = Some ''https://example.com/a'',
            el_pubDate = Some ''Fri, 01 Jan 2021 00:00:00 GMT'', el_source = None,
            el_description = None\<rparr>,
           \<lparr>el_title = Some ''Cricket'', el_link = Some ''https://example.com/b'',
            el_pubDate = Some ''Fri, 01 Jan 2021 00:00:00 GMT'', el_source = None,
            el_description = None\<rparr>,
           \<lparr>el_title = Some ''India grid'', el_link = None,
            el_pubDate = Some ''Fri, 01 Jan 2021 00:00:00 GMT'', el_source = None,
            el_description = None\<rparr>]
        else if s = sample_feed_bad_date then
          [\<lparr>el_title = Some ''India power demand'', el_link = Some ''https://example.com/a'',
            el_pubDate = Some ''not a date'', el_source = None, el_description = None\<rparr>]
        else [])\<rparr>"

definition item_at :: "string \<Rightarrow> string \<Rightarrow> NewsItem" where
  "item_at t when =
     \<lparr>id_field = [], title = t, url = ''u'', source = ''Google News'', publishedAtISO = when,
      snippet = []\<rparr>"

section \<open>Properties\<close>

subsection \<open>Relevance filter\<close>






subsection \<open>Feed fetcher and parser\<close>

text \<open>Every record the parser lets through has a title, a link and a timestamp text.\<close>

lemma map_items_valid:
  "map_items env i xs = Inr rs \<Longrightarrow> n \<in> set (filter_Boolean rs) \<Longrightarrow>
   title n \<noteq> [] \<and> url n \<noteq> [] \<and> publishedAtISO n \<noteq> []"
proof (induction xs arbitrary: i rs)
  case Nil
  then show ?case by simp
next
  case (Cons x xs)
  from Cons.prems(1) obtain r rs' where r: "parse_item env i x = Inr r"
    and rs': "map_items env (Suc i) xs = Inr rs'" and rs: "rs = r # rs'"
    by (auto split: sum.splits)
  show ?case
  proof (cases "n \<in> set (filter_Boolean rs')")
    case True
    with Cons.IH rs' show ?thesis by blast
  next
    case False
    with Cons.prems(2) rs have "r = Some n" by (cases r) auto
    with r show ?thesis
      by (auto simp: parse_item_def Let_def split: if_splits option.splits sum.splits)
  qed
qed

lemma fetchGoogleNewsRSS_valid:
  "fetchGoogleNewsRSS env res = Inr rs \<Longrightarrow> n \<in> set rs \<Longrightarrow>
   title n \<noteq> [] \<and> url n \<noteq> [] \<and> publishedAtISO n \<noteq> []"
  by (cases res) (auto simp: fetchGoogleNewsRSS_def split: if_splits sum.splits
      dest: map_items_valid)

text \<open>The case the date guard misses, for any browser.\<close>

lemma parse_item_unparseable_pubDate:
  "el_pubDate x = Some p \<Longrightarrow> p \<noteq> [] \<Longrightarrow> Date_parse env p = None \<Longrightarrow>
   parse_item env i x = Inl RangeError"
  by (simp add: parse_item_def or_default_def Let_def)

text \<open>
  C1. The claim is that an item with an unparseable publish date is dropped without an
  error. The parser guards only the empty date: for a date text that is not empty and that
  \<open>new Date\<close> cannot read, \<open>toISOString\<close> throws a RangeError inside the \<open>map\<close> callback, the
  whole fetch fails, and \<open>load\<close> shows the error message. The feed below has one item, with
  a title, a link and the date text \<open>not a date\<close>.
\<close>

theorem fetchGoogleNewsRSS_unparseable_pubDate:
  "fetchGoogleNewsRSS sample_builtins (Response True sample_feed_bad_date) = Inl RangeError \<and>
   error (fst (load sample_builtins True 0 0 (Response True sample_feed_bad_date)
     \<lparr>items = JArr [], loading = False, error = None\<rparr>
     \<lparr>storage = Map.empty, fetch_calls = 0\<rparr>)) = Some load_error_message"
proof -
  have "fetchGoogleNewsRSS sample_builtins (Response True sample_feed_bad_date) = Inl RangeError"
    by code_simp
  then show ?thesis by (simp add: load_def Let_def load_entry_def)
qed

subsection \<open>Cache store\<close>

lemma NewsItem_js_inj: "NewsItem_js a = NewsItem_js b \<Longrightarrow> a = b"
  by (cases a, cases b) (simp add: NewsItem_js_def)

lemma map_NewsItem_js_inj: "map NewsItem_js xs = map NewsItem_js ys \<Longrightarrow> xs = ys"
  by (induction xs arbitrary: ys) (auto dest: NewsItem_js_inj)

text \<open>
  C4. A cache written by \<open>saveCache\<close> at time \<open>t0\<close> and read by \<open>loadCache\<close> at time \<open>t1\<close>, not
  more than the time to live later and with no write in between, gives back the saved
  records: the same records, with the same fields, in the same order. What is asked of the
  platform is that \<open>JSON.parse\<close> reads back the entry that \<open>JSON.stringify\<close> wrote, and that
  the text written is not empty.
\<close>

theorem saveCache_loadCache:
  assumes parse: "JSON_parse env (JSON_stringify env (cache_entry t0 its)) = Some (cache_entry t0 its)"
    and nonempty: "JSON_stringify env (cache_entry t0 its) \<noteq> []"
    and fresh: "t1 - t0 \<le> CACHE_TTL_MS"
  shows "loadCache env t1 (saveCache env t0 its store) = JArr (map NewsItem_js its) \<and>
         (\<forall>its'. loadCache env t1 (saveCache env t0 its store) = JArr (map NewsItem_js its')
            \<longrightarrow> its' = its)"
proof -
  have "loadCache env t1 (saveCache env t0 its store) = JArr (map NewsItem_js its)"
    using assms by (simp add: loadCache_def loadCache_try_def saveCache_def cache_entry_def)
  then show ?thesis by (auto dest: map_NewsItem_js_inj)
qed

theorem saveCache_loadCache_witness:
  "JSON_parse sample_builtins (JSON_stringify sample_builtins
     (cache_entry 1609459200000 [sample_item])) = Some (cache_entry 1609459200000 [sample_item]) \<and>
   JSON_stringify sample_builtins (cache_entry 1609459200000 [sample_item]) \<noteq> [] \<and>
   1609462800000 - 1609459200000 \<le> CACHE_TTL_MS \<and>
   loadCache sample_builtins 1609462800000
     (saveCache sample_builtins 1609459200000 [sample_item] Map.empty) =
   JArr (map NewsItem_js [sample_item])"
proof -
  have p: "JSON_parse sample_builtins (JSON_stringify sample_builtins
     (cache_entry 1609459200000 [sample_item])) = Some (cache_entry 1609459200000 [sample_item])"
    by code_simp
  have n: "JSON_stringify sample_builtins (cache_entry 1609459200000 [sample_item]) \<noteq> []"
    by code_simp
  have f: "(1609462800000 :: int) - 1609459200000 \<le> CACHE_TTL_MS"
    by (simp add: CACHE_TTL_MS_def)
  from saveCache_loadCache [OF p n f, of Map.empty] p n f show ?thesis by blast
qed




subsection \<open>Pipeline orchestrator\<close>






text \<open>
  C9. When \<open>load(false)\<close> finds a list in the cache, also an empty one, it adopts that list
  as \<open>items\<close> and ends with \<open>loading\<close> false and no error; the world is unchanged: no
  request is sent and the cache slot is not written.
\<close>

theorem load_cache_hit:
  assumes "loadCache env t_read (storage w) = JArr xs"
  shows "load env False t_read t_write res st w =
           (st\<lparr>items := JArr xs, loading := False, error := None\<rparr>, w)"
proof -
  from assms have hit: "truthy (loadCache env t_read (storage w))" by simp
  then have "load env False t_read t_write res st w =
      ((load_entry st)\<lparr>items := loadCache env t_read (storage w), loading := False\<rparr>, w)"
    by (simp add: load_def Let_def)
  with assms show ?thesis by (simp add: load_entry_def)
qed

theorem load_cache_hit_witness:
  "loadCache sample_builtins 1609459201000 [CACHE_KEY \<mapsto> sample_cache_text] =
     JArr [NewsItem_js sample_item] \<and>
   load sample_builtins False 1609459201000 1609459201000 Rejected
     \<lparr>items = JArr [], loading = False, error = Some load_error_message\<rparr>
     \<lparr>storage = [CACHE_KEY \<mapsto> sample_cache_text], fetch_calls = 0\<rparr> =
   (\<lparr>items = JArr [NewsItem_js sample_item], loading = False, error = None\<rparr>,
    \<lparr>storage = [CACHE_KEY \<mapsto> sample_cache_text], fetch_calls = 0\<rparr>)"
proof -
  have hit: "loadCache sample_builtins 1609459201000 [CACHE_KEY \<mapsto> sample_cache_text] =
      JArr [NewsItem_js sample_item]"
    by code_simp
  then have "loadCache sample_builtins 1609459201000
      (storage \<lparr>storage = [CACHE_KEY \<mapsto> sample_cache_text], fetch_calls = 0\<rparr>) =
      JArr [NewsItem_js sample_item]"
    by simp
  from load_cache_hit [OF this, of 1609459201000 Rejected
      "\<lparr>items = JArr [], loading = False, error = Some load_error_message\<rparr>"] hit
  show ?thesis by simp
qed



subsection \<open>Derived view\<close>

lemma mset_sort_insert: "mset (sort_insert cmp x ys) = add_mset x (mset ys)"
  by (induction ys) auto

lemma Array_sort_snoc: "Array_sort cmp (xs @ [x]) = sort_insert cmp x (Array_sort cmp xs)"
  by (simp add: Array_sort_def)

lemma mset_Array_sort: "mset (Array_sort cmp xs) = mset xs"
  by (induction xs rule: rev_induct) (simp_all add: Array_sort_snoc mset_sort_insert, simp add: Array_sort_def)

lemma set_Array_sort: "set (Array_sort cmp xs) = set xs"
  using mset_Array_sort [of cmp xs] by (metis set_mset_mset)







text \<open>
  The order the specification names is a stable descending sort: descending keys, and
  records with equal keys in the order they had.
\<close>

lemma ties_insert_desc:
  "filter (\<lambda>n. publishedAtISO n = k) (insert_desc x ys) =
     (if publishedAtISO x = k then x # filter (\<lambda>n. publishedAtISO n = k) ys
      else filter (\<lambda>n. publishedAtISO n = k) ys)"
  by (induction ys) auto

lemma spec_stable_sort_negated_key_stable:
  "filter (\<lambda>n. publishedAtISO n = k) (spec_stable_sort_negated_key xs) =
     filter (\<lambda>n. publishedAtISO n = k) xs"
  by (induction xs) (simp_all add: spec_stable_sort_negated_key_def ties_insert_desc)

lemma set_insert_desc: "set (insert_desc x ys) = insert x (set ys)"
  by (induction ys) auto

lemma desc_insert_desc:
  "sorted_wrt (\<lambda>a b. publishedAtISO b \<le> publishedAtISO a) ys \<Longrightarrow>
   sorted_wrt (\<lambda>a b. publishedAtISO b \<le> publishedAtISO a) (insert_desc x ys)"
  by (induction ys) (auto simp: set_insert_desc)

lemma spec_stable_sort_negated_key_desc:
  "sorted_wrt (\<lambda>a b. publishedAtISO b \<le> publishedAtISO a) (spec_stable_sort_negated_key xs)"
  by (induction xs) (simp_all add: spec_stable_sort_negated_key_def desc_insert_desc)

text \<open>
  C6. For a range whose two ends \<open>from\<close> at 00:00:00Z and \<open>to\<close> at 23:59:59Z are dates the
  platform can read, a record is in the derived view exactly when it is among \<open>items\<close>
  and its \<open>publishedAtISO\<close> is an instant of the closed interval between the two ends. A
  record at either end is in the view, a record before the first or after the second is
  not.
\<close>

theorem filtered_range:
  assumes "Date_parse env (from @ ''T00:00:00Z'') = Some fromT"
    and "Date_parse env (to @ ''T23:59:59Z'') = Some toT"
  shows "n \<in> set (filtered env its from to) \<longleftrightarrow>
           n \<in> set its \<and>
           (\<exists>t. Date_parse env (publishedAtISO n) = Some t \<and> fromT \<le> t \<and> t \<le> toT)"
  using assms
  by (auto simp: filtered_def set_Array_sort in_range_def num_le_def Let_def split: option.splits)

theorem filtered_range_witness:
  "Date_parse sample_builtins (''2021-01-01'' @ ''T00:00:00Z'') = Some 1609459200000 \<and>
   Date_parse sample_builtins (''2021-01-31'' @ ''T23:59:59Z'') = Some 1612137599000 \<and>
   item_at ''start'' ''2021-01-01T00:00:00.000Z'' \<in> set (filtered sample_builtins
     [item_at ''before'' ''2020-12-31T23:59:59.999Z'', item_at ''start'' ''2021-01-01T00:00:00.000Z'',
      item_at ''end'' ''2021-01-31T23:59:59.000Z'', item_at ''after'' ''2021-01-31T23:59:59.001Z'']
     ''2021-01-01'' ''2021-01-31'') \<and>
   item_at ''end'' ''2021-01-31T23:59:59.000Z'' \<in> set (filtered sample_builtins
     [item_at ''before'' ''2020-12-31T23:59:59.999Z'', item_at ''start'' ''2021-01-01T00:00:00.000Z'',
      item_at ''end'' ''2021-01-31T23:59:59.000Z'', item_at ''after'' ''2021-01-31T23:59:59.001Z'']
     ''2021-01-01'' ''2021-01-31'') \<and>
   item_at ''before'' ''2020-12-31T23:59:59.999Z'' \<notin> set (filtered sample_builtins
     [item_at ''before'' ''2020-12-31T23:59:59.999Z'', item_at ''start'' ''2021-01-01T00:00:00.000Z'',
      item_at ''end'' ''2021-01-31T23:59:59.000Z'', item_at ''after'' ''2021-01-31T23:59:59.001Z'']
     ''2021-01-01'' ''2021-01-31'') \<and>
   item_at ''after'' ''2021-01-31T23:59:59.001Z'' \<notin> set (filtered sample_builtins
     [item_at ''before'' ''2020-12-31T23:59:59.999Z'', item_at ''start'' ''2021-01-01T00:00:00.000Z'',
      item_at ''end'' ''2021-01-31T23:59:59.000Z'', item_at ''after'' ''2021-01-31T23:59:59.001Z'']
     ''2021-01-01'' ''2021-01-31'')"
proof -
  let ?its = "[item_at ''before'' ''2020-12-31T23:59:59.999Z'',
      item_at ''start'' ''2021-01-01T00:00:00.000Z'',
      item_at ''end'' ''2021-01-31T23:59:59.000Z'', item_at ''after'' ''2021-01-31T23:59:59.001Z'']"
  have lo: "Date_parse sample_builtins (''2021-01-01'' @ ''T00:00:00Z'') = Some 1609459200000"
    by code_simp
  have hi: "Date_parse sample_builtins (''2021-01-31'' @ ''T23:59:59Z'') = Some 1612137599000"
    by code_simp
  have d1: "Date_parse sample_builtins (publishedAtISO (item_at ''before'' ''2020-12-31T23:59:59.999Z''))
      = Some 1609459199999" by code_simp
  have d2: "Date_parse sample_builtins (publishedAtISO (item_at ''start'' ''2021-01-01T00:00:00.000Z''))
      = Some 1609459200000" by code_simp
  have d3: "Date_parse sample_builtins (publishedAtISO (item_at ''end'' ''2021-01-31T23:59:59.000Z''))
      = Some 1612137599000" by code_simp
  have d4: "Date_parse sample_builtins (publishedAtISO (item_at ''after'' ''2021-01-31T23:59:59.001Z''))
      = Some 1612137599001" by code_simp
  note r = filtered_range [OF lo hi, of _ ?its]
  have "item_at ''start'' ''2021-01-01T00:00:00.000Z'' \<in> set (filtered sample_builtins ?its
      ''2021-01-01'' ''2021-01-31'')"
    unfolding r using d2 by simp
  moreover have "item_at ''end'' ''2021-01-31T23:59:59.000Z'' \<in> set (filtered sample_builtins ?its
      ''2021-01-01'' ''2021-01-31'')"
    unfolding r using d3 by simp
  moreover have "item_at ''before'' ''2020-12-31T23:59:59.999Z'' \<notin> set (filtered sample_builtins ?its
      ''2021-01-01'' ''2021-01-31'')"
    unfolding r using d1 by simp
  moreover have "item_at ''after'' ''2021-01-31T23:59:59.001Z'' \<notin> set (filtered sample_builtins ?its
      ''2021-01-01'' ''2021-01-31'')"
    unfolding r using d4 by simp
  ultimately show ?thesis using lo hi by blast
qed




end
